theory Spec2Isabelle
  imports Complex_Main
begin

section \<open>JavaScript values and built-ins used by the client\<close>

text \<open>
  A JavaScript string is modelled as a \<^typ>\<open>string\<close> whose characters are the code units
  of the string; the model is exact for strings whose code units lie below 256.
  A value of type \<open>T | null\<close> is a \<^typ>\<open>'a option\<close>; a value of type
  \<open>T | null | undefined\<close> (an optional field or parameter) is a \<open>nullable\<close>.
  An identifier, a size or a variation number, which the client receives and passes
  on, is an \<^typ>\<open>int\<close> or a \<^typ>\<open>nat\<close>; a number that the client computes with
  \<open>parseInt\<close> is a \<open>number\<close>, a double-precision value.
\<close>

datatype 'a nullable = Undefined | Null | Val 'a

text \<open>The nullish coalescing operator \<open>x ?? d\<close>.\<close>

fun nullish :: "'a nullable \<Rightarrow> 'a \<Rightarrow> 'a" where
  "nullish Undefined d = d"
| "nullish Null d = d"
| "nullish (Val x) d = x"

text \<open>Truthiness of a string: every string but the empty one.\<close>

definition truthy :: "string \<Rightarrow> bool" where
  "truthy s = (s \<noteq> [])"

text \<open>\<open>s.startsWith(p)\<close>.\<close>

definition startsWith :: "string \<Rightarrow> string \<Rightarrow> bool" where
  "startsWith s p = (take (length p) s = p)"

text \<open>
  White space and line terminators of ECMAScript in the range below 256:
  TAB, LF, VT, FF, CR, SP and NBSP.
\<close>

definition is_ws :: "char \<Rightarrow> bool" where
  "is_ws c = (c \<in> set [CHR 0x09, CHR 0x0A, CHR 0x0B, CHR 0x0C, CHR 0x0D, CHR 0x20, CHR 0xA0])"

text \<open>\<open>s.trim()\<close>: white space removed at both ends.\<close>

definition trim :: "string \<Rightarrow> string" where
  "trim s = rev (dropWhile is_ws (rev (dropWhile is_ws s)))"

text \<open>Digits of \<open>parseInt\<close>, in radix 10 or 16.\<close>

definition digit_table :: "(char \<times> nat) list" where
  "digit_table =
    [(CHR ''0'', 0), (CHR ''1'', 1), (CHR ''2'', 2), (CHR ''3'', 3), (CHR ''4'', 4),
     (CHR ''5'', 5), (CHR ''6'', 6), (CHR ''7'', 7), (CHR ''8'', 8), (CHR ''9'', 9),
     (CHR ''a'', 10), (CHR ''b'', 11), (CHR ''c'', 12), (CHR ''d'', 13), (CHR ''e'', 14),
     (CHR ''f'', 15),
     (CHR ''A'', 10), (CHR ''B'', 11), (CHR ''C'', 12), (CHR ''D'', 13), (CHR ''E'', 14),
     (CHR ''F'', 15)]"

definition digit_val :: "char \<Rightarrow> nat option" where
  "digit_val c = map_of digit_table c"

definition is_digit :: "nat \<Rightarrow> char \<Rightarrow> bool" where
  "is_digit radix c = (case digit_val c of None \<Rightarrow> False | Some d \<Rightarrow> d < radix)"

definition digits_value :: "nat \<Rightarrow> string \<Rightarrow> nat" where
  "digits_value radix ds =
    foldl (\<lambda>acc c. acc * radix + (case digit_val c of None \<Rightarrow> 0 | Some d \<Rightarrow> d)) 0 ds"

text \<open>
  The numbers that \<open>parseInt\<close> returns: \<open>NaN\<close>, an integer that is a double-precision
  value, or an infinity. The sign of zero is not kept: \<open>-0\<close> and \<open>0\<close> are both
  \<open>Num 0\<close>, both falsy and both printed as \<open>0\<close>.
\<close>

datatype number = NaN | Num int | PosInfinity | NegInfinity

fun bit_length :: "nat \<Rightarrow> nat" where
  "bit_length n = (if n = 0 then 0 else Suc (bit_length (n div 2)))"

declare bit_length.simps [simp del]

text \<open>
  The double nearest to a natural number, ties to the even significand of 53 bits.
  A result of \<open>2^1024\<close> or more stands for overflow.
\<close>

definition round_to_double :: "nat \<Rightarrow> nat" where
  "round_to_double n =
    (if n < 2 ^ 53 then n
     else let e = bit_length n - 53; q = n div 2 ^ e; r = n mod 2 ^ e
          in (if 2 ^ e < 2 * r \<or> (2 * r = 2 ^ e \<and> odd q) then q + 1 else q) * 2 ^ e)"

text \<open>The Number value for a mathematical integer.\<close>

definition to_number :: "int \<Rightarrow> number" where
  "to_number i =
    (let m = round_to_double (nat \<bar>i\<bar>)
     in if 2 ^ 1024 \<le> m then (if i < 0 then NegInfinity else PosInfinity)
        else Num (if i < 0 then - int m else int m))"

text \<open>
  \<open>parseInt(s)\<close> with no radix argument, after ECMAScript: leading white space is
  skipped, one sign is read, a prefix \<open>0x\<close> or \<open>0X\<close> selects radix 16, and the longest
  run of digits is read; with no digit the result is \<open>NaN\<close>. The result is the
  Number value for the integer read, all of its digits taken into account.
\<close>

definition parseInt :: "string \<Rightarrow> number" where
  "parseInt s =
    (let s1 = dropWhile is_ws s;
         sign = (if s1 \<noteq> [] \<and> hd s1 = CHR ''-'' then - 1 else 1 :: int);
         s2 = (if s1 \<noteq> [] \<and> (hd s1 = CHR ''+'' \<or> hd s1 = CHR ''-'') then tl s1 else s1);
         hex = (take 2 s2 = ''0x'' \<or> take 2 s2 = ''0X'');
         radix = (if hex then 16 else 10 :: nat);
         s3 = (if hex then drop 2 s2 else s2);
         z = takeWhile (is_digit radix) s3
     in if z = [] then NaN else to_number (sign * int (digits_value radix z)))"

text \<open>The decimal digits of a natural number.\<close>

definition digit_char :: "nat \<Rightarrow> char" where
  "digit_char d = ''0123456789'' ! d"

fun nat_toString :: "nat \<Rightarrow> string" where
  "nat_toString n =
    (if n < 10 then [digit_char n] else nat_toString (n div 10) @ [digit_char (n mod 10)])"

declare nat_toString.simps [simp del]

fun dec_len :: "nat \<Rightarrow> nat" where
  "dec_len n = (if n < 10 then 1 else Suc (dec_len (n div 10)))"

declare dec_len.simps [simp del]

text \<open>
  \<open>Number.prototype.toString\<close> in radix 10, after ECMAScript, for a positive integer
  \<open>x\<close> that is a double: among the \<open>n\<close>, \<open>k\<close> and \<open>s\<close> with \<open>s\<close> of \<open>k\<close> digits and
  \<open>s \<times> 10^(n - k)\<close> rounding to \<open>x\<close>, those with the least \<open>k\<close>, and of these the one
  nearest to \<open>x\<close>. \<open>digits_for x n k\<close> lists the \<open>s\<close> for given \<open>n\<close> and \<open>k\<close>, the
  nearer first; no more than 17 digits are ever needed.
\<close>

definition digits_for :: "nat \<Rightarrow> nat \<Rightarrow> nat \<Rightarrow> nat list" where
  "digits_for x n k =
    (let p = 10 ^ (n - k); lo = x div p; hi = lo + 1;
         ordered = (if x - lo * p < hi * p - x \<or> (x - lo * p = hi * p - x \<and> even lo)
                    then [lo, hi] else [hi, lo])
     in filter (\<lambda>s. 10 ^ (k - 1) \<le> s \<and> s < 10 ^ k \<and> round_to_double (s * p) = x) ordered)"

definition shortest :: "nat \<Rightarrow> (nat \<times> nat \<times> nat) option" where
  "shortest x =
    (let d = dec_len x
     in case concat (map (\<lambda>k. map (\<lambda>s. (d, k, s)) (digits_for x d k)
                              @ map (\<lambda>s. (Suc d, k, s)) (digits_for x (Suc d) k)) [1..<18]) of
          [] \<Rightarrow> None
        | t # ts \<Rightarrow> Some t)"

text \<open>
  Below \<open>2^53\<close> every integer is a double, and the digits printed are all its digits.
  From \<open>10^21\<close> on the exponent form is printed.
\<close>

definition nat_Number_toString :: "nat \<Rightarrow> string" where
  "nat_Number_toString x =
    (if x < 2 ^ 53 then nat_toString x
     else case shortest x of
            None \<Rightarrow> nat_toString x
          | Some (n, k, s) \<Rightarrow>
              if n \<le> 21 then nat_toString s @ replicate (n - k) (CHR ''0'')
              else (if k = 1 then nat_toString s
                    else hd (nat_toString s) # CHR ''.'' # tl (nat_toString s))
                   @ ''e+'' @ nat_toString (n - 1))"

definition Number_toString :: "number \<Rightarrow> string" where
  "Number_toString v =
    (case v of
       NaN \<Rightarrow> ''NaN''
     | PosInfinity \<Rightarrow> ''Infinity''
     | NegInfinity \<Rightarrow> ''-Infinity''
     | Num i \<Rightarrow> if i < 0 then CHR ''-'' # nat_Number_toString (nat (- i))
                else nat_Number_toString (nat i))"

text \<open>
  \<open>n.toString()\<close>, and \<open>n\<close> in a template literal, for an integer received from the
  server: the text of its Number value.
\<close>

definition toString :: "int \<Rightarrow> string" where
  "toString n = Number_toString (to_number n)"

text \<open>\<open>b.toString()\<close> of a boolean.\<close>

definition bool_toString :: "bool \<Rightarrow> string" where
  "bool_toString b = (if b then ''true'' else ''false'')"

text \<open>
  A template literal slot \<open>${x}\<close> holding \<open>string | undefined\<close>: an undefined value
  is rendered as the text \<open>undefined\<close>.
\<close>

definition template :: "string option \<Rightarrow> string" where
  "template x = (case x of None \<Rightarrow> ''undefined'' | Some s \<Rightarrow> s)"


section \<open>HTTP requests\<close>

datatype http_method = GET | POST | DELETE

record File =
  file_name :: string
  file_size :: nat

datatype json = JNum int | JStr string | JBool bool

datatype form_value = Text string | Blob File

datatype body =
    NoBody
  | JsonBody "(string \<times> json) list"
  | FormBody "(string \<times> form_value) list"
  | UrlEncoded "(string \<times> string) list"

record request =
  req_method :: http_method
  req_url :: string
  req_headers :: "string \<rightharpoonup> string"
  req_body :: body

text \<open>A call that passes no headers of its own.\<close>

definition no_headers :: "string \<rightharpoonup> string" where
  "no_headers = Map.empty"

text \<open>
  The answer to an awaited call: resolved with a value, or rejected with the
  \<open>error?.response?.data?.detail\<close> of the error, when there is one.
\<close>

datatype 'a response = Resolved 'a | Rejected "string option"


section \<open>The API context (\<open>ApiContext.tsx\<close>)\<close>

definition TOKEN_STORAGE_KEY :: string where
  "TOKEN_STORAGE_KEY = ''ai-campaign-token''"

text \<open>
  The provider's state: the \<open>authToken\<close> of \<open>useState\<close>, the default headers
  \<open>api.defaults.headers.common\<close> of the axios instance, and \<open>window.localStorage\<close>,
  which is \<open>None\<close> where \<open>typeof window === 'undefined'\<close>.
\<close>

text \<open>A storage that holds no entry.\<close>

definition empty_storage :: "string \<rightharpoonup> string" where
  "empty_storage = Map.empty"

record provider =
  authToken :: "string option"
  common :: "string \<rightharpoonup> string"
  localStorage :: "(string \<rightharpoonup> string) option"

text \<open>
  The hydration effect. It returns the argument of the \<open>setAuthToken\<close> call it makes,
  if it makes one.
\<close>

definition hydrate :: "provider \<Rightarrow> string option" where
  "hydrate p =
    (case localStorage p of
       None \<Rightarrow> None
     | Some ls \<Rightarrow>
        (case ls TOKEN_STORAGE_KEY of
           None \<Rightarrow> None
         | Some storedToken \<Rightarrow> if truthy storedToken then Some storedToken else None))"

text \<open>The effect that syncs the axios headers and the storage with the token.\<close>

definition syncEffect :: "provider \<Rightarrow> provider" where
  "syncEffect p =
    (let signed_out =
           p\<lparr>common := (common p)(''Authorization'' := None),
             localStorage := map_option (\<lambda>ls. ls(TOKEN_STORAGE_KEY := None)) (localStorage p)\<rparr>
     in case authToken p of
          None \<Rightarrow> signed_out
        | Some t \<Rightarrow>
            if truthy t then
              p\<lparr>common := (common p)(''Authorization'' \<mapsto> ''Bearer '' @ t),
                localStorage := map_option (\<lambda>ls. ls(TOKEN_STORAGE_KEY \<mapsto> t)) (localStorage p)\<rparr>
            else signed_out)"

definition login :: "string \<Rightarrow> provider \<Rightarrow> provider" where
  "login token p = p\<lparr>authToken := Some token\<rparr>"

definition logout :: "provider \<Rightarrow> provider" where
  "logout p = p\<lparr>authToken := None\<rparr>"

text \<open>
  A state change followed by the sync effect, which React runs after the render
  when \<open>authToken\<close> has changed.
\<close>

definition login_synced :: "string \<Rightarrow> provider \<Rightarrow> provider" where
  "login_synced token p = syncEffect (login token p)"

definition logout_synced :: "provider \<Rightarrow> provider" where
  "logout_synced p = syncEffect (logout p)"

text \<open>
  A fresh mount of the provider on a given storage, with the default headers the
  new axios instance starts with. The first render has \<open>authToken = null\<close>; both
  effects then run in the order they are declared, each seeing that first render's
  token; the state update queued by the hydration effect causes a second render,
  after which the sync effect runs again.
\<close>

definition mount :: "(string \<rightharpoonup> string) \<Rightarrow> (string \<rightharpoonup> string) option \<Rightarrow> provider" where
  "mount defaults storage =
    (let p0 = \<lparr>authToken = None, common = defaults, localStorage = storage\<rparr>;
         queued = hydrate p0;
         p1 = syncEffect p0
     in case queued of
          None \<Rightarrow> p1
        | Some t \<Rightarrow> syncEffect (p1\<lparr>authToken := Some t\<rparr>))"

text \<open>
  A request through the shared instance \<open>api\<close> carries the instance's default
  headers, over which the headers of the call are laid; a request through plain
  \<open>axios\<close> carries the headers of the call only.
\<close>

definition api_request ::
  "provider \<Rightarrow> http_method \<Rightarrow> string \<Rightarrow> (string \<rightharpoonup> string) \<Rightarrow> body \<Rightarrow> request" where
  "api_request p m u hs b =
    \<lparr>req_method = m, req_url = u, req_headers = common p ++ hs, req_body = b\<rparr>"

definition axios_request ::
  "http_method \<Rightarrow> string \<Rightarrow> (string \<rightharpoonup> string) \<Rightarrow> body \<Rightarrow> request" where
  "axios_request m u hs b =
    \<lparr>req_method = m, req_url = u, req_headers = hs, req_body = b\<rparr>"


section \<open>The sign-up and login pages\<close>

text \<open>The constant \<open>API_URL\<close> of the two pages.\<close>

definition PAGE_API_URL :: string where
  "PAGE_API_URL = ''http://127.0.0.1:8000''"

text \<open>The request of \<open>SignupPage.handleSubmit\<close>, sent with plain \<open>axios.post\<close>.\<close>

definition signup_request :: "string \<Rightarrow> string \<Rightarrow> request" where
  "signup_request email password =
    axios_request POST (PAGE_API_URL @ ''/users/'') no_headers
      (JsonBody [(''email'', JStr email), (''password'', JStr password)])"

text \<open>The request of \<open>LoginPage.handleSubmit\<close>, sent with plain \<open>axios.post\<close>.\<close>

definition login_request :: "string \<Rightarrow> string \<Rightarrow> request" where
  "login_request email password =
    axios_request POST (PAGE_API_URL @ ''/token/'')
      [''Content-Type'' \<mapsto> ''application/x-www-form-urlencoded'']
      (UrlEncoded [(''username'', email), (''password'', password)])"

text \<open>
  \<open>LoginPage.handleSubmit\<close>, as far as the provider is concerned: the answer of the
  token endpoint holds \<open>response.data?.access_token\<close>, and \<open>login\<close> is called only
  with a truthy token.
\<close>

definition LoginPage_handleSubmit ::
  "(request \<Rightarrow> string option response) \<Rightarrow> string \<Rightarrow> string \<Rightarrow> provider \<Rightarrow> provider" where
  "LoginPage_handleSubmit token_endpoint email password p =
    (case token_endpoint (login_request email password) of
       Resolved (Some token) \<Rightarrow> if truthy token then login token p else p
     | Resolved None \<Rightarrow> p
     | Rejected d \<Rightarrow> p)"


section \<open>The dashboard (\<open>page.tsx\<close>)\<close>

subsection \<open>Data\<close>

text \<open>
  The fields of the four object types carry a prefix, since the types share field
  names: \<open>gt_\<close> for \<open>GeneratedText\<close>, \<open>gi_\<close> for \<open>GeneratedImage\<close>, \<open>cd_\<close> for
  \<open>CampaignDetails\<close>, \<open>cs_\<close> for \<open>CampaignSummary\<close>.
\<close>

record GeneratedText =
  gt_id :: int
  gt_platform :: string
  gt_caption :: string
  gt_persuasiveness_score :: "rat option"
  gt_clarity_score :: "rat option"
  gt_feedback :: "string option"

record GeneratedImage =
  gi_id :: int
  gi_platform :: string
  gi_image_url :: string
  gi_image_prompt :: string
  gi_original_image_url :: "string nullable"
  gi_variation_number :: "int nullable"
  gi_is_selected :: "bool nullable"
  gi_tags :: "string list nullable"
  gi_collection :: "string nullable"

record CampaignDetails =
  cd_id :: int
  cd_product_name :: string
  cd_product_url :: string
  cd_created_at :: string
  cd_texts :: "GeneratedText list"
  cd_images :: "GeneratedImage list"

record CampaignSummary =
  cs_id :: int
  cs_product_name :: string
  cs_product_url :: string
  cs_created_at :: string
  cs_preview_image_url :: "string nullable"

datatype toast_kind = Loading | Success | Failure

text \<open>
  The state of \<open>DashboardPage\<close>: its \<open>useState\<close> cells, and four logs of what the
  page did to the outside: the toasts shown, the routes given to \<open>router.push\<close> and
  to \<open>router.replace\<close>, and the requests sent through \<open>api\<close>. The navigation that
  the router starts is logged, not followed.
\<close>

record dashboard =
  campaigns :: "CampaignSummary list"
  activeCampaign :: "CampaignDetails option"
  isFetchingCampaign :: bool
  isGenerating :: bool
  url :: string
  productName :: string
  productImage :: "File option"
  enableABTesting :: bool
  numVariations :: number
  toasts :: "(toast_kind \<times> string) list"
  pushed :: "string list"
  replaced :: "string list"
  sent :: "request list"

definition initial_dashboard :: dashboard where
  "initial_dashboard =
    \<lparr>campaigns = [], activeCampaign = None, isFetchingCampaign = False,
     isGenerating = False,
     url = ''https://www.amazon.com/SAMSUNG-Unlocked-Smartphone-Charging-Expandable/dp/B0DLHNWHRF/'',
     productName = [], productImage = None, enableABTesting = False,
     numVariations = Num 2, toasts = [], pushed = [], replaced = [], sent = []\<rparr>"

text \<open>The endpoints the dashboard calls, each a function of the request it receives.\<close>

record server =
  list_campaigns :: "request \<Rightarrow> CampaignSummary list response"
  get_campaign :: "request \<Rightarrow> CampaignDetails response"
  delete_campaign :: "request \<Rightarrow> unit response"
  regenerate :: "request \<Rightarrow> unit response"
  select_winner :: "request \<Rightarrow> unit response"
  generate_campaign :: "request \<Rightarrow> CampaignDetails response"

definition toast :: "toast_kind \<Rightarrow> string \<Rightarrow> dashboard \<Rightarrow> dashboard" where
  "toast k msg s = s\<lparr>toasts := toasts s @ [(k, msg)]\<rparr>"

definition send :: "request \<Rightarrow> dashboard \<Rightarrow> dashboard" where
  "send r s = s\<lparr>sent := sent s @ [r]\<rparr>"

text \<open>\<open>error?.response?.data?.detail || fallback\<close>.\<close>

definition detail_or :: "string option \<Rightarrow> string \<Rightarrow> string" where
  "detail_or d fallback =
    (case d of None \<Rightarrow> fallback | Some m \<Rightarrow> if truthy m then m else fallback)"

subsection \<open>Pure helpers\<close>

text \<open>
  The character U+2014 returned for an unreadable date lies outside the 8-bit range
  of \<^typ>\<open>char\<close>; it is written here by its UTF-8 bytes.
\<close>

definition EM_DASH :: string where
  "EM_DASH = [CHR 0xE2, CHR 0x80, CHR 0x94]"

text \<open>
  \<open>formatTime\<close>. The parameter \<open>localeTime\<close> stands for \<open>new Date(value)\<close> followed by
  \<open>toLocaleTimeString\<close>, which depend on the browser: it is \<open>None\<close> where
  \<open>date.getTime()\<close> is \<open>NaN\<close>.
\<close>

definition formatTime :: "(string \<Rightarrow> string option) \<Rightarrow> string option \<Rightarrow> string" where
  "formatTime localeTime v =
    (case v of
       None \<Rightarrow> ''No campaigns yet''
     | Some s \<Rightarrow>
        if \<not> truthy s then ''No campaigns yet''
        else (case localeTime s of None \<Rightarrow> EM_DASH | Some t \<Rightarrow> t))"

text \<open>
  \<open>resolveAssetUrl\<close>. The first parameter is the module constant \<open>API_URL\<close>, read from
  \<open>process.env.NEXT_PUBLIC_API_URL\<close>, which is \<open>None\<close> when the variable is not set.
\<close>

definition resolveAssetUrl :: "string option \<Rightarrow> string nullable \<Rightarrow> string" where
  "resolveAssetUrl API_URL path =
    (case path of
       Val p \<Rightarrow>
        if \<not> truthy p then []
        else if startsWith p ''http'' then p else template API_URL @ p
     | _ \<Rightarrow> [])"

record stats =
  totalCampaigns :: nat
  totalImages :: nat
  lastRun :: "string option"

text \<open>The memoised \<open>stats\<close> of the dashboard.\<close>

definition dashboard_stats :: "dashboard \<Rightarrow> stats" where
  "dashboard_stats s =
    \<lparr>totalCampaigns = length (campaigns s),
     totalImages = (case activeCampaign s of None \<Rightarrow> 0 | Some a \<Rightarrow> length (cd_images a)),
     lastRun = (case campaigns s of [] \<Rightarrow> None | c # _ \<Rightarrow> Some (cs_created_at c))\<rparr>"

text \<open>
  \<open>findImage\<close>. The variation number is an optional parameter with default 0:
  \<open>None\<close> is the call that leaves it out.
\<close>

definition findImage :: "dashboard \<Rightarrow> string \<Rightarrow> int option \<Rightarrow> GeneratedImage option" where
  "findImage s platform variationNumber =
    (let v = (case variationNumber of None \<Rightarrow> 0 | Some n \<Rightarrow> n)
     in case activeCampaign s of
          None \<Rightarrow> None
        | Some a \<Rightarrow>
            find (\<lambda>img. gi_platform img = platform \<and> nullish (gi_variation_number img) 0 = v)
              (cd_images a))"

definition findImagesByPlatform :: "dashboard \<Rightarrow> string \<Rightarrow> GeneratedImage list" where
  "findImagesByPlatform s platform =
    (case activeCampaign s of
       None \<Rightarrow> []
     | Some a \<Rightarrow> filter (\<lambda>img. gi_platform img = platform) (cd_images a))"

text \<open>The \<open>isMain\<close> flag and the label of a card in the A/B panel.\<close>

definition isMain :: "GeneratedImage \<Rightarrow> bool" where
  "isMain img = (nullish (gi_variation_number img) 0 = 0)"

definition variation_label :: "GeneratedImage \<Rightarrow> string" where
  "variation_label img =
    (if isMain img then ''Main''
     else ''Variation '' @
       (case gi_variation_number img of
          Val n \<Rightarrow> toString n | Null \<Rightarrow> ''null'' | Undefined \<Rightarrow> ''undefined''))"

subsection \<open>Handlers that call the API\<close>

text \<open>
  Each handler takes the provider whose instance \<open>api\<close> it uses and the server that
  answers, and returns the state once the handler has run to its end, every awaited
  call answered. A call that the source starts without awaiting it (\<open>fetchCampaigns\<close>
  at the end of \<open>handleSubmit\<close>) is run to its end as well. The log of toasts records
  the toasts shown; \<open>toast.dismiss\<close> is not recorded.
\<close>

definition fetchCampaigns :: "server \<Rightarrow> provider \<Rightarrow> dashboard \<Rightarrow> dashboard" where
  "fetchCampaigns srv p s =
    (let r = api_request p GET ''/api/v1/campaigns/'' no_headers NoBody;
         s1 = send r s
     in case list_campaigns srv r of
          Resolved cs \<Rightarrow> s1\<lparr>campaigns := cs\<rparr>
        | Rejected d \<Rightarrow> toast Failure ''Unable to load campaigns.'' s1)"

definition fetchCampaignDetails :: "server \<Rightarrow> provider \<Rightarrow> int \<Rightarrow> dashboard \<Rightarrow> dashboard" where
  "fetchCampaignDetails srv p campaignId s =
    (let r = api_request p GET (''/api/v1/campaigns/'' @ toString campaignId) no_headers NoBody;
         s1 = send r (s\<lparr>isFetchingCampaign := True\<rparr>);
         s2 = (case get_campaign srv r of
                 Resolved d \<Rightarrow> s1\<lparr>activeCampaign := Some d\<rparr>
               | Rejected d \<Rightarrow> toast Failure ''Unable to load campaign details.'' s1)
     in s2\<lparr>isFetchingCampaign := False\<rparr>)"

text \<open>The request of \<open>handleDeleteCampaign\<close>.\<close>

definition delete_request :: "provider \<Rightarrow> int \<Rightarrow> request" where
  "delete_request p campaignId =
    api_request p DELETE (''/campaigns/'' @ toString campaignId) no_headers NoBody"

text \<open>
  \<open>handleDeleteCampaign\<close>. The first parameter is the user's answer to
  \<open>window.confirm\<close>; the result pairs the new state with the value returned.
\<close>

definition handleDeleteCampaign ::
  "bool \<Rightarrow> server \<Rightarrow> provider \<Rightarrow> int \<Rightarrow> dashboard \<Rightarrow> dashboard \<times> bool" where
  "handleDeleteCampaign confirmed srv p campaignId s =
    (if \<not> confirmed then (s, False)
     else
       let r = delete_request p campaignId;
           s1 = send r s
       in case delete_campaign srv r of
            Resolved u \<Rightarrow>
              (toast Success ''Campaign deleted''
                 (s1\<lparr>campaigns := filter (\<lambda>campaign. cs_id campaign \<noteq> campaignId) (campaigns s1),
                     activeCampaign :=
                       (if (case activeCampaign s1 of None \<Rightarrow> False | Some a \<Rightarrow> cd_id a = campaignId)
                        then None else activeCampaign s1)\<rparr>),
               True)
          | Rejected d \<Rightarrow> (toast Failure (detail_or d ''Unable to delete campaign.'') s1, False))"

definition handleDeleteActiveCampaign ::
  "bool \<Rightarrow> server \<Rightarrow> provider \<Rightarrow> dashboard \<Rightarrow> dashboard" where
  "handleDeleteActiveCampaign confirmed srv p s =
    (case activeCampaign s of
       None \<Rightarrow> s
     | Some a \<Rightarrow>
        (case handleDeleteCampaign confirmed srv p (cd_id a) s of
           (s', success) \<Rightarrow> if success then s'\<lparr>pushed := pushed s' @ [''/'']\<rparr> else s'))"

text \<open>The request of \<open>handleRegenerateImage\<close>.\<close>

definition regenerate_request :: "provider \<Rightarrow> int \<Rightarrow> string \<Rightarrow> int \<Rightarrow> request" where
  "regenerate_request p campaignId platform variationNumber =
    api_request p POST ''/api/v1/assets/regenerate'' no_headers
      (JsonBody [(''campaign_id'', JNum campaignId), (''platform'', JStr platform),
                 (''variation_number'', JNum variationNumber)])"

text \<open>
  \<open>handleRegenerateImage\<close>. The variation number is an optional parameter with
  default 0: \<open>None\<close> is the call that leaves it out.
\<close>

definition handleRegenerateImage ::
  "server \<Rightarrow> provider \<Rightarrow> int \<Rightarrow> string \<Rightarrow> int option \<Rightarrow> dashboard \<Rightarrow> dashboard" where
  "handleRegenerateImage srv p campaignId platform variationNumber s =
    (let v = (case variationNumber of None \<Rightarrow> 0 | Some n \<Rightarrow> n);
         s1 = toast Loading (''Regenerating image for '' @ platform @ ''...'') s;
         r = regenerate_request p campaignId platform v;
         s2 = send r s1
     in case regenerate srv r of
          Resolved u \<Rightarrow>
            fetchCampaignDetails srv p campaignId (toast Success ''Image regenerated!'' s2)
        | Rejected d \<Rightarrow> toast Failure (detail_or d ''Failed to regenerate image.'') s2)"

text \<open>
  The two buttons that regenerate: the one beside the main image, rendered for the
  tab of a text when a campaign is active, and the one on a card of the A/B panel.
\<close>

definition main_Regenerate_onClick ::
  "server \<Rightarrow> provider \<Rightarrow> GeneratedText \<Rightarrow> dashboard \<Rightarrow> dashboard" where
  "main_Regenerate_onClick srv p text s =
    (case activeCampaign s of
       None \<Rightarrow> s
     | Some a \<Rightarrow> handleRegenerateImage srv p (cd_id a) (gt_platform text) (Some 0) s)"

definition card_Regenerate_onClick ::
  "server \<Rightarrow> provider \<Rightarrow> GeneratedText \<Rightarrow> GeneratedImage \<Rightarrow> dashboard \<Rightarrow> dashboard" where
  "card_Regenerate_onClick srv p text img s =
    (case activeCampaign s of
       None \<Rightarrow> s
     | Some a \<Rightarrow>
        handleRegenerateImage srv p (cd_id a) (gt_platform text)
          (Some (nullish (gi_variation_number img) 0)) s)"

definition handleSelectABWinner ::
  "server \<Rightarrow> provider \<Rightarrow> int \<Rightarrow> bool \<Rightarrow> dashboard \<Rightarrow> dashboard" where
  "handleSelectABWinner srv p imageId isSelected s =
    (let r = api_request p POST ''/api/v1/assets/ab-test/select'' no_headers
               (JsonBody [(''image_id'', JNum imageId), (''is_selected'', JBool isSelected)]);
         s1 = send r s
     in case select_winner srv r of
          Resolved u \<Rightarrow>
            (let s2 = toast Success
                        (if isSelected then ''Image selected as winner!'' else ''Selection removed'') s1
             in case activeCampaign s2 of
                  None \<Rightarrow> s2
                | Some a \<Rightarrow> fetchCampaignDetails srv p (cd_id a) s2)
        | Rejected d \<Rightarrow> toast Failure (detail_or d ''Failed to update selection.'') s1)"

subsection \<open>The form that creates a campaign\<close>

text \<open>
  The file input element, as far as the handler reads and writes it: its value and
  its list of files. Writing the empty string to the value empties the list.
\<close>

record input_element =
  el_value :: string
  el_files :: "File list"

definition productImage_onChange ::
  "input_element \<Rightarrow> dashboard \<Rightarrow> dashboard \<times> input_element" where
  "productImage_onChange el s =
    (case el_files el of
       [] \<Rightarrow> (s\<lparr>productImage := None\<rparr>, el)
     | file # rest \<Rightarrow>
        if file_size file > 10 * 1024 * 1024 then
          ((toast Failure ''Image size must be less than 10MB'' s)\<lparr>productImage := None\<rparr>,
           \<lparr>el_value = [], el_files = []\<rparr>)
        else
          (toast Success (''Image selected: '' @ file_name file) (s\<lparr>productImage := Some file\<rparr>),
           el))"

definition productName_onChange :: "string \<Rightarrow> dashboard \<Rightarrow> dashboard" where
  "productName_onChange v s = s\<lparr>productName := v\<rparr>"

definition url_onChange :: "string \<Rightarrow> dashboard \<Rightarrow> dashboard" where
  "url_onChange v s = s\<lparr>url := v\<rparr>"

definition enableABTesting_onChange :: "bool \<Rightarrow> dashboard \<Rightarrow> dashboard" where
  "enableABTesting_onChange b s = s\<lparr>enableABTesting := b\<rparr>"

text \<open>\<open>setNumVariations(parseInt(e.target.value) || 2)\<close>: \<open>NaN\<close> and 0 are falsy.\<close>

definition numVariations_onChange :: "string \<Rightarrow> dashboard \<Rightarrow> dashboard" where
  "numVariations_onChange v s =
    s\<lparr>numVariations :=
        (case parseInt v of
           NaN \<Rightarrow> Num 2
         | Num n \<Rightarrow> if n = 0 then Num 2 else Num n
         | PosInfinity \<Rightarrow> PosInfinity
         | NegInfinity \<Rightarrow> NegInfinity)\<rparr>"

text \<open>The entries of the \<open>FormData\<close> that \<open>handleSubmit\<close> builds, in the order appended.\<close>

definition create_campaign_form :: "dashboard \<Rightarrow> (string \<times> form_value) list" where
  "create_campaign_form s =
    [(''product_url'', Text (url s))]
    @ (if truthy (trim (productName s)) then [(''product_name'', Text (trim (productName s)))]
       else [])
    @ (case productImage s of None \<Rightarrow> [] | Some f \<Rightarrow> [(''product_image'', Blob f)])
    @ [(''enable_ab_testing'', Text (bool_toString (enableABTesting s))),
       (''num_variations'', Text (Number_toString (numVariations s)))]"

definition create_campaign_request :: "provider \<Rightarrow> dashboard \<Rightarrow> request" where
  "create_campaign_request p s =
    api_request p POST ''/api/v1/generate/campaign''
      [''Content-Type'' \<mapsto> ''multipart/form-data''] (FormBody (create_campaign_form s))"

definition handleSubmit :: "server \<Rightarrow> provider \<Rightarrow> dashboard \<Rightarrow> dashboard" where
  "handleSubmit srv p s =
    (let s1 = toast Loading ''Generating campaign... This may take a couple of minutes.''
                (s\<lparr>isGenerating := True\<rparr>);
         r = create_campaign_request p s;
         s2 = send r s1;
         s3 = (case generate_campaign srv r of
                 Resolved d \<Rightarrow>
                   fetchCampaigns srv p
                     ((toast Success ''Campaign generated!'' s2)\<lparr>activeCampaign := Some d\<rparr>)
               | Rejected d \<Rightarrow>
                   toast Failure (detail_or d ''Generation failed. Please try again.'') s2)
     in s3\<lparr>isGenerating := False\<rparr>)"

text \<open>The value of a field of a form: the first entry under the name, as \<open>FormData.get\<close>.\<close>

definition form_get :: "(string \<times> form_value) list \<Rightarrow> string \<Rightarrow> form_value option" where
  "form_get fd k = map_of fd k"

subsection \<open>The browser's part in submitting the form\<close>

text \<open>
  The variation-count field as the page renders it: a number input with \<open>min="2"\<close>
  and \<open>max="3"\<close> that holds the \<open>numVariations\<close> state, rendered only while
  \<open>enableABTesting\<close> is set.
\<close>

record number_field =
  field_min :: int
  field_max :: int
  field_value :: number

definition numVariations_field :: "dashboard \<Rightarrow> number_field option" where
  "numVariations_field s =
    (if enableABTesting s
     then Some \<lparr>field_min = 2, field_max = 3, field_value = numVariations s\<rparr>
     else None)"

text \<open>
  A number field satisfies its constraints when its value is a number from \<open>min\<close> to
  \<open>max\<close> (the values here are integers, so the default step of 1 from \<open>min\<close> holds).
\<close>

definition field_valid :: "number_field \<Rightarrow> bool" where
  "field_valid f =
    (case field_value f of Num n \<Rightarrow> field_min f \<le> n \<and> n \<le> field_max f | _ \<Rightarrow> False)"

text \<open>
  The form is \<open><form onSubmit={handleSubmit}>\<close> without \<open>noValidate\<close>: the browser
  fires the submit event, and with it \<open>handleSubmit\<close>, only when every field that is
  rendered satisfies its constraints. The URL field is \<open>required\<close> and of type \<open>url\<close>;
  \<open>valid_url\<close> stands for the browser's test of an absolute URL. While \<open>isGenerating\<close>
  is set the fields and the button are disabled, and nothing is submitted.
\<close>

definition form_valid :: "(string \<Rightarrow> bool) \<Rightarrow> dashboard \<Rightarrow> bool" where
  "form_valid valid_url s =
    (url s \<noteq> [] \<and> valid_url (url s)
     \<and> (case numVariations_field s of None \<Rightarrow> True | Some f \<Rightarrow> field_valid f))"

definition form_onSubmit ::
  "(string \<Rightarrow> bool) \<Rightarrow> server \<Rightarrow> provider \<Rightarrow> dashboard \<Rightarrow> dashboard" where
  "form_onSubmit valid_url srv p s =
    (if \<not> isGenerating s \<and> form_valid valid_url s then handleSubmit srv p s else s)"

subsection \<open>The page under the provider\<close>

text \<open>
  \<open>DashboardPage\<close> calls \<open>useApi\<close>, which throws outside an \<open>ApiProvider\<close>: the page is
  a descendant of the provider. The page has two effects that depend on \<open>authToken\<close>:
  the first replaces the route by \<open>/login\<close> when the token is falsy, the second calls
  \<open>fetchCampaigns\<close> when it is truthy. They run with the provider as it is at that
  moment.
\<close>

definition token_truthy :: "provider \<Rightarrow> bool" where
  "token_truthy p = (case authToken p of None \<Rightarrow> False | Some t \<Rightarrow> truthy t)"

definition dashboard_effects :: "server \<Rightarrow> provider \<Rightarrow> dashboard \<Rightarrow> dashboard" where
  "dashboard_effects srv p s =
    (let s1 = (if \<not> token_truthy p then s\<lparr>replaced := replaced s @ [''/login'']\<rparr> else s)
     in if token_truthy p then fetchCampaigns srv p s1 else s1)"

record app =
  app_provider :: provider
  app_dashboard :: dashboard

text \<open>
  The effects that depend on \<open>authToken\<close>, after a render in which it is new. React
  runs the effects of a child before those of its parent: the page's effects run
  first, with the provider as the render left it, then the provider's sync effect.
\<close>

definition run_effects :: "server \<Rightarrow> app \<Rightarrow> app" where
  "run_effects srv a =
    \<lparr>app_provider = syncEffect (app_provider a),
     app_dashboard = dashboard_effects srv (app_provider a) (app_dashboard a)\<rparr>"

text \<open>
  A reload of the dashboard page: provider and page mount with \<open>authToken = null\<close>;
  the effects of the mount run, among them the hydration effect, which reads the
  storage as the mount found it; the token it queues causes a second render, after
  which the effects that depend on the token run again.
\<close>

definition reload ::
  "(string \<rightharpoonup> string) \<Rightarrow> (string \<rightharpoonup> string) option \<Rightarrow> server \<Rightarrow> app" where
  "reload defaults storage srv =
    (let p0 = \<lparr>authToken = None, common = defaults, localStorage = storage\<rparr>;
         queued = hydrate p0;
         a1 = run_effects srv \<lparr>app_provider = p0, app_dashboard = initial_dashboard\<rparr>
     in case queued of
          None \<Rightarrow> a1
        | Some t \<Rightarrow> run_effects srv (a1\<lparr>app_provider := (app_provider a1)\<lparr>authToken := Some t\<rparr>\<rparr>))"


section \<open>Auxiliary definitions for the statements\<close>

text \<open>\<open>window.localStorage.getItem(TOKEN_STORAGE_KEY)\<close>, where there is a window.\<close>

definition stored_token :: "provider \<Rightarrow> string option" where
  "stored_token p = (case localStorage p of None \<Rightarrow> None | Some ls \<Rightarrow> ls TOKEN_STORAGE_KEY)"

text \<open>The form data of a request whose body is a form.\<close>

definition request_form :: "request \<Rightarrow> (string \<times> form_value) list" where
  "request_form r = (case req_body r of FormBody fd \<Rightarrow> fd | _ \<Rightarrow> [])"

text \<open>Sample data: a provider mounted in a browser with an empty storage, and a server.\<close>

definition signed_out :: provider where
  "signed_out = mount no_headers (Some empty_storage)"

definition sample_server :: server where
  "sample_server =
    \<lparr>list_campaigns = (\<lambda>r. Resolved []),
     get_campaign = (\<lambda>r. Rejected None),
     delete_campaign = (\<lambda>r. Resolved ()),
     regenerate = (\<lambda>r. Resolved ()),
     select_winner = (\<lambda>r. Resolved ()),
     generate_campaign = (\<lambda>r. Rejected (Some ''Invalid product URL''))\<rparr>"


text \<open>
  Sample data: a storage that holds the token \<open>abc\<close>, a server that lists the
  campaigns only for a request with an \<open>Authorization\<close> header, and a test of URLs.
\<close>

definition stored_abc :: "string \<rightharpoonup> string" where
  "stored_abc = empty_storage(TOKEN_STORAGE_KEY \<mapsto> ''abc'')"

definition guarded_server :: server where
  "guarded_server =
    sample_server\<lparr>list_campaigns :=
      (\<lambda>r. case req_headers r ''Authorization'' of
             None \<Rightarrow> Rejected (Some ''Not authenticated'')
           | Some h \<Rightarrow> Resolved [])\<rparr>"

definition sample_valid_url :: "string \<Rightarrow> bool" where
  "sample_valid_url u = (startsWith u ''https://'' \<or> startsWith u ''http://'')"

text \<open>Sample data: a file of exactly 10 MiB and one a byte larger.\<close>

definition exact_file :: File where
  "exact_file = \<lparr>file_name = ''shoe.png'', file_size = 10485760\<rparr>"

definition large_file :: File where
  "large_file = \<lparr>file_name = ''poster.png'', file_size = 10485761\<rparr>"

text \<open>Sample data: two campaigns, the first of them active with three images.\<close>

definition sample_summaries :: "CampaignSummary list" where
  "sample_summaries =
    [\<lparr>cs_id = 7, cs_product_name = ''Trail Shoe'', cs_product_url = ''https://shop.example/shoe'',
      cs_created_at = ''2025-03-02T10:15:00'', cs_preview_image_url = Null\<rparr>,
     \<lparr>cs_id = 3, cs_product_name = ''Lamp'', cs_product_url = ''https://shop.example/lamp'',
      cs_created_at = ''2025-03-01T09:00:00'', cs_preview_image_url = Undefined\<rparr>]"

definition sample_image :: "int \<Rightarrow> string \<Rightarrow> int nullable \<Rightarrow> GeneratedImage" where
  "sample_image i platform v =
    \<lparr>gi_id = i, gi_platform = platform, gi_image_url = ''/static/images/a.png'',
     gi_image_prompt = ''a shoe'', gi_original_image_url = Null, gi_variation_number = v,
     gi_is_selected = Undefined, gi_tags = Null, gi_collection = Null\<rparr>"

definition sample_text :: GeneratedText where
  "sample_text =
    \<lparr>gt_id = 21, gt_platform = ''Instagram'', gt_caption = ''Run further.'',
     gt_persuasiveness_score = None, gt_clarity_score = None, gt_feedback = None\<rparr>"

definition sample_details :: CampaignDetails where
  "sample_details =
    \<lparr>cd_id = 7, cd_product_name = ''Trail Shoe'', cd_product_url = ''https://shop.example/shoe'',
     cd_created_at = ''2025-03-02T10:15:00'', cd_texts = [sample_text],
     cd_images = [sample_image 11 ''Instagram'' Null, sample_image 12 ''Instagram'' (Val 1),
                  sample_image 13 ''Facebook'' Undefined]\<rparr>"

definition sample_dashboard :: dashboard where
  "sample_dashboard =
    initial_dashboard\<lparr>campaigns := sample_summaries, activeCampaign := Some sample_details\<rparr>"

text \<open>A reading of the sample time stamps as numbers: the day of the month.\<close>

definition sample_clock :: "string \<Rightarrow> nat" where
  "sample_clock v = digits_value 10 (take 2 (drop 8 v))"


section \<open>Properties of the built-ins\<close>

lemma startsWith_iff: "startsWith s p \<longleftrightarrow> (\<exists>r. s = p @ r)"
  unfolding startsWith_def
  by (metis append_eq_conv_conj append_take_drop_id)

text \<open>Below \<open>2^53\<close> in magnitude, numbers are the integers and print all their digits.\<close>

lemma to_number_small: "\<bar>i\<bar> < 2 ^ 53 \<Longrightarrow> to_number i = Num i"
proof -
  assume a: "\<bar>i\<bar> < 2 ^ 53"
  then have n: "nat \<bar>i\<bar> < 2 ^ 53" by simp
  have "(2::nat) ^ 53 \<le> 2 ^ 1024" by (rule power_increasing) simp_all
  with n have "\<not> (2::nat) ^ 1024 \<le> nat \<bar>i\<bar>" by linarith
  with n show ?thesis
    unfolding to_number_def round_to_double_def Let_def by (simp only: if_True if_False) auto
qed

lemma toString_small: "0 \<le> i \<Longrightarrow> i < 2 ^ 53 \<Longrightarrow> toString i = nat_toString (nat i)"
proof -
  assume a: "0 \<le> i" "i < 2 ^ 53"
  then have "nat i < 2 ^ 53" by simp
  with a show ?thesis
    by (simp add: toString_def to_number_small Number_toString_def nat_Number_toString_def)
qed

lemma Number_toString_small:
  "0 \<le> i \<Longrightarrow> i < 2 ^ 53 \<Longrightarrow> Number_toString (Num i) = nat_toString (nat i)"
proof -
  assume a: "0 \<le> i" "i < 2 ^ 53"
  then have "nat i < 2 ^ 53" by simp
  with a show ?thesis
    by (simp add: Number_toString_def nat_Number_toString_def)
qed

lemma parseInt_digit:
  "parseInt ''2'' = Num 2" "parseInt ''3'' = Num 3" "parseInt ''5'' = Num 5"
  by (simp_all add: parseInt_def is_ws_def is_digit_def digit_val_def digit_table_def
      digits_value_def Let_def to_number_small)

lemma toString_digit:
  "Number_toString (Num 2) = ''2''" "Number_toString (Num 3) = ''3''"
  "Number_toString (Num 5) = ''5''" "toString 0 = ''0''" "toString 1 = ''1''"
  "toString 7 = ''7''"
  by (simp_all add: Number_toString_small toString_small nat_toString.simps digit_char_def)

text \<open>
  Above \<open>2^53\<close> the integer read is rounded to the nearest double, and from \<open>10^21\<close>
  on the exponent form is printed.
\<close>

lemma bit_length_numeral:
  "bit_length (numeral n) = Suc (bit_length (numeral n div 2))"
  by (subst bit_length.simps) simp

lemma bit_length_small: "bit_length 0 = 0" "bit_length (Suc 0) = 1" "bit_length 1 = 1"
  by (simp_all add: bit_length.simps)

lemma dec_len_numeral:
  "dec_len (numeral n) = (if numeral n < (10::nat) then 1 else Suc (dec_len (numeral n div 10)))"
  by (subst dec_len.simps) simp

lemma dec_len_small: "dec_len 0 = 1" "dec_len (Suc 0) = 1" "dec_len 1 = 1"
  by (simp_all add: dec_len.simps)

lemma parseInt_rounds: "parseInt ''9007199254740993'' = Num 9007199254740992"
proof -
  have r: "round_to_double 9007199254740993 = 9007199254740992"
    by (simp add: round_to_double_def Let_def bit_length_numeral bit_length_small)
  show ?thesis
    by (simp add: parseInt_def is_ws_def is_digit_def digit_val_def digit_table_def
        digits_value_def Let_def to_number_def r)
qed

lemma parseInt_1e21: "parseInt ''1000000000000000000000'' = Num 1000000000000000000000"
proof -
  have r: "round_to_double 1000000000000000000000 = 1000000000000000000000"
    by (simp add: round_to_double_def Let_def bit_length_numeral bit_length_small)
  show ?thesis
    by (simp add: parseInt_def is_ws_def is_digit_def digit_val_def digit_table_def
        digits_value_def Let_def to_number_def r)
qed

lemma toString_1e21: "Number_toString (Num 1000000000000000000000) = ''1e+21''"
proof -
  have r: "round_to_double 1000000000000000000000 = 1000000000000000000000"
    by (simp add: round_to_double_def Let_def bit_length_numeral bit_length_small)
  have r2: "round_to_double 2000000000000000000000 = 2000000000000000000000"
    by (simp add: round_to_double_def Let_def bit_length_numeral bit_length_small)
  have f: "digits_for 1000000000000000000000 22 (Suc 0) = [1]"
    by (simp add: digits_for_def Let_def r r2)
  have u: "[1..<18] = 1 # [2..<18]"
    by (simp add: upt_conv_Cons)
  have d: "dec_len 1000000000000000000000 = 22"
    by (simp add: dec_len_numeral dec_len_small)
  have s: "shortest 1000000000000000000000 = Some (22, 1, 1)"
    unfolding shortest_def u d by (simp add: Let_def f del: upt_rec_numeral)
  show ?thesis
    by (simp add: Number_toString_def nat_Number_toString_def s nat_toString.simps
        digit_char_def)
qed


section \<open>Asset URLs\<close>

text \<open>
  Claim C2. \<open>resolveAssetUrl\<close> returns a path that starts with \<open>http\<close> as it is,
  prefixes any other non-empty path with the API base origin \<open>API_URL\<close>, and
  returns the empty string for a path that is null, undefined or empty.
\<close>

theorem resolveAssetUrl_cases:
  "(startsWith p ''http'' \<longrightarrow> resolveAssetUrl api (Val p) = p)
   \<and> (p \<noteq> [] \<and> \<not> startsWith p ''http'' \<longrightarrow> resolveAssetUrl (Some base) (Val p) = base @ p)
   \<and> resolveAssetUrl api Null = []
   \<and> resolveAssetUrl api Undefined = []
   \<and> resolveAssetUrl api (Val []) = []"
  by (auto simp: resolveAssetUrl_def truthy_def startsWith_def template_def)

theorem resolveAssetUrl_cases_witness:
  "startsWith ''https://cdn.example/a.png'' ''http''
   \<and> resolveAssetUrl (Some ''http://localhost:8000'') (Val ''https://cdn.example/a.png'')
       = ''https://cdn.example/a.png''
   \<and> ''/static/images/a.png'' \<noteq> [] \<and> \<not> startsWith ''/static/images/a.png'' ''http''
   \<and> resolveAssetUrl (Some ''http://localhost:8000'') (Val ''/static/images/a.png'')
       = ''http://localhost:8000/static/images/a.png''"
  using resolveAssetUrl_cases [of "''https://cdn.example/a.png''" "Some ''http://localhost:8000''"
      "''http://localhost:8000''"]
    resolveAssetUrl_cases [of "''/static/images/a.png''" "Some ''http://localhost:8000''"
      "''http://localhost:8000''"]
  by (simp add: startsWith_def)

text \<open>
  Where the environment variable behind \<open>API_URL\<close> is not set, the template literal
  renders it as the text \<open>undefined\<close>.
\<close>

lemma resolveAssetUrl_unset:
  "p \<noteq> [] \<Longrightarrow> \<not> startsWith p ''http'' \<Longrightarrow> resolveAssetUrl None (Val p) = ''undefined'' @ p"
  by (simp add: resolveAssetUrl_def truthy_def template_def)


section \<open>Requests sent by the handlers\<close>

lemma api_request_auth:
  "hs ''Authorization'' = None \<Longrightarrow>
   req_headers (api_request p m u hs b) ''Authorization'' = common p ''Authorization''"
  by (simp add: api_request_def map_add_def)

lemma no_headers_auth: "no_headers ''Authorization'' = None"
  by (simp add: no_headers_def)

lemma sent_toast [simp]: "sent (toast k m s) = sent s"
  by (simp add: toast_def)

lemma sent_send [simp]: "sent (send r s) = sent s @ [r]"
  by (simp add: send_def)

lemma fetchCampaigns_sent:
  "sent (fetchCampaigns srv p s) = sent s @ [api_request p GET ''/api/v1/campaigns/'' no_headers NoBody]"
  by (simp add: fetchCampaigns_def Let_def split: response.split)

lemma fetchCampaignDetails_sent:
  "sent (fetchCampaignDetails srv p i s) =
     sent s @ [api_request p GET (''/api/v1/campaigns/'' @ toString i) no_headers NoBody]"
  by (simp add: fetchCampaignDetails_def Let_def split: response.split)

lemma handleDeleteCampaign_sent:
  "sent (fst (handleDeleteCampaign c srv p i s)) =
     sent s @ (if c then [delete_request p i] else [])"
  by (simp add: handleDeleteCampaign_def Let_def split: response.split)

lemma handleDeleteActiveCampaign_sent:
  "sent (handleDeleteActiveCampaign c srv p s) =
     sent s @ (case activeCampaign s of None \<Rightarrow> []
        | Some a \<Rightarrow> if c then [delete_request p (cd_id a)] else [])"
  by (simp add: handleDeleteActiveCampaign_def handleDeleteCampaign_def Let_def split: response.split option.split)

lemma handleRegenerateImage_sent:
  "sent (handleRegenerateImage srv p i pl v s) =
     sent s @ regenerate_request p i pl (case v of None \<Rightarrow> 0 | Some n \<Rightarrow> n)
       # (case regenerate srv (regenerate_request p i pl (case v of None \<Rightarrow> 0 | Some n \<Rightarrow> n)) of
            Resolved u \<Rightarrow> [api_request p GET (''/api/v1/campaigns/'' @ toString i) no_headers NoBody]
          | Rejected d \<Rightarrow> [])"
  by (simp add: handleRegenerateImage_def Let_def fetchCampaignDetails_sent split: response.split)

lemma handleSubmit_sent:
  "sent (handleSubmit srv p s) =
     sent s @ create_campaign_request p s
       # (case generate_campaign srv (create_campaign_request p s) of
            Resolved d \<Rightarrow> [api_request p GET ''/api/v1/campaigns/'' no_headers NoBody]
          | Rejected d \<Rightarrow> [])"
  by (simp add: handleSubmit_def Let_def fetchCampaigns_sent create_campaign_request_def split: response.split)

lemma syncEffect_common:
  "common (syncEffect p) ''Authorization'' =
    (case authToken p of None \<Rightarrow> None | Some t \<Rightarrow> if t = [] then None else Some (''Bearer '' @ t))"
  by (simp add: syncEffect_def truthy_def split: option.split)


section \<open>The bearer header\<close>

text \<open>
  Every request that a handler sends through the instance carries the default
  \<open>Authorization\<close> header the instance has at that moment, and nothing else under
  that name.
\<close>

lemma handler_requests_default_header:
  "\<forall>r \<in> set (sent (fetchCampaigns srv p s)). r \<in> set (sent s)
      \<or> req_headers r ''Authorization'' = common p ''Authorization''"
  "\<forall>r \<in> set (sent (fetchCampaignDetails srv p i s)). r \<in> set (sent s)
      \<or> req_headers r ''Authorization'' = common p ''Authorization''"
  "\<forall>r \<in> set (sent (fst (handleDeleteCampaign c srv p i s))). r \<in> set (sent s)
      \<or> req_headers r ''Authorization'' = common p ''Authorization''"
  "\<forall>r \<in> set (sent (handleRegenerateImage srv p i pl v s)). r \<in> set (sent s)
      \<or> req_headers r ''Authorization'' = common p ''Authorization''"
  "\<forall>r \<in> set (sent (handleSubmit srv p s)). r \<in> set (sent s)
      \<or> req_headers r ''Authorization'' = common p ''Authorization''"
  by (auto simp: fetchCampaigns_sent fetchCampaignDetails_sent handleDeleteCampaign_sent
      handleRegenerateImage_sent handleSubmit_sent delete_request_def regenerate_request_def
      create_campaign_request_def api_request_auth no_headers_auth
      split: response.splits if_splits)

text \<open>
  The requests of the sign-up and login pages go through plain axios and carry no
  \<open>Authorization\<close> header.
\<close>

lemma signup_login_no_bearer:
  "req_headers (signup_request email password) ''Authorization'' = None"
  "req_headers (login_request email password) ''Authorization'' = None"
  by (simp_all add: signup_request_def login_request_def axios_request_def no_headers_def)

lemma signed_out_simps:
  "authToken signed_out = None" "localStorage signed_out = Some (empty_storage(TOKEN_STORAGE_KEY := None))"
  "common signed_out = no_headers(''Authorization'' := None)"
  by (simp_all add: signed_out_def mount_def hydrate_def empty_storage_def syncEffect_def Let_def)

text \<open>The provider that a reload leaves is the provider of a fresh mount.\<close>

lemma reload_provider: "app_provider (reload defaults storage srv) = mount defaults storage"
  by (simp add: reload_def mount_def run_effects_def Let_def split: option.split)

text \<open>
  On a reload the page fetches the campaigns only under a truthy token, and then
  before the sync effect has run for that token: the request carries what the sync
  effect for the null token of the first render left, which is no header.
\<close>

lemma reload_dashboard:
  assumes "hydrate \<lparr>authToken = None, common = defaults, localStorage = storage\<rparr> = Some t"
  shows "app_dashboard (reload defaults storage srv) =
    fetchCampaigns srv
      ((syncEffect \<lparr>authToken = None, common = defaults, localStorage = storage\<rparr>)
         \<lparr>authToken := Some t\<rparr>)
      (initial_dashboard\<lparr>replaced := [''/login'']\<rparr>)"
proof -
  from assms have "truthy t"
    by (auto simp: hydrate_def split: option.splits if_splits)
  with assms show ?thesis
    by (simp add: reload_def run_effects_def dashboard_effects_def token_truthy_def Let_def
        initial_dashboard_def)
qed

lemma reload_sent:
  "sent (app_dashboard (reload defaults storage srv)) =
    (case hydrate \<lparr>authToken = None, common = defaults, localStorage = storage\<rparr> of
       None \<Rightarrow> []
     | Some t \<Rightarrow>
        [api_request
           ((syncEffect \<lparr>authToken = None, common = defaults, localStorage = storage\<rparr>)
              \<lparr>authToken := Some t\<rparr>)
           GET ''/api/v1/campaigns/'' no_headers NoBody])"
proof (cases "hydrate \<lparr>authToken = None, common = defaults, localStorage = storage\<rparr>")
  case None
  then show ?thesis
    by (simp add: reload_def run_effects_def dashboard_effects_def token_truthy_def Let_def
        initial_dashboard_def)
next
  case (Some t)
  then have "truthy t"
    by (auto simp: hydrate_def split: option.splits if_splits)
  with Some show ?thesis
    by (simp add: reload_def run_effects_def dashboard_effects_def token_truthy_def Let_def
        initial_dashboard_def fetchCampaigns_sent)
qed

lemma reload_request_header:
  "\<forall>r \<in> set (sent (app_dashboard (reload defaults storage srv))).
     req_headers r ''Authorization'' = None"
  by (auto simp: reload_sent api_request_def no_headers_def map_add_def syncEffect_def Let_def
      split: option.splits)

text \<open>
  Claim C1. Every request issued through the shared instance while the token is
  non-null is to carry \<open>Authorization: Bearer\<close> and the token. The page reloaded in a
  browser whose storage holds the token \<open>abc\<close> does otherwise: the token is hydrated
  to \<open>abc\<close>, the page's effect sends \<open>GET /api/v1/campaigns/\<close> through the instance
  before the provider's sync effect has set the default header, and the request
  leaves without an \<open>Authorization\<close> header; a server that asks for the credential
  rejects it, and the page shows that the campaigns cannot be loaded. Only after
  that does the instance hold \<open>Bearer abc\<close>. (The first render, still without a
  token, has asked the router for \<open>/login\<close>.) With an empty storage nothing is sent.
\<close>

theorem reload_fetch_without_bearer:
  "authToken (app_provider (reload no_headers (Some stored_abc) guarded_server)) = Some ''abc''
   \<and> length (sent (app_dashboard (reload no_headers (Some stored_abc) guarded_server))) = 1
   \<and> req_method (hd (sent (app_dashboard (reload no_headers (Some stored_abc) guarded_server))))
        = GET
   \<and> req_url (hd (sent (app_dashboard (reload no_headers (Some stored_abc) guarded_server))))
        = ''/api/v1/campaigns/''
   \<and> req_headers (hd (sent (app_dashboard (reload no_headers (Some stored_abc) guarded_server))))
        ''Authorization'' = None
   \<and> toasts (app_dashboard (reload no_headers (Some stored_abc) guarded_server))
        = [(Failure, ''Unable to load campaigns.'')]
   \<and> replaced (app_dashboard (reload no_headers (Some stored_abc) guarded_server))
        = [''/login'']
   \<and> common (app_provider (reload no_headers (Some stored_abc) guarded_server))
        ''Authorization'' = Some ''Bearer abc''
   \<and> sent (app_dashboard (reload no_headers (Some empty_storage) guarded_server)) = []"
proof -
  have h: "hydrate \<lparr>authToken = None, common = no_headers, localStorage = Some stored_abc\<rparr>
      = Some ''abc''"
    by (simp add: hydrate_def stored_abc_def truthy_def)
  have e: "hydrate \<lparr>authToken = None, common = no_headers, localStorage = Some empty_storage\<rparr>
      = None"
    by (simp add: hydrate_def empty_storage_def)
  have p: "app_provider (reload no_headers (Some stored_abc) guarded_server)
      = mount no_headers (Some stored_abc)"
    by (rule reload_provider)
  have m: "authToken (mount no_headers (Some stored_abc)) = Some ''abc''"
    "common (mount no_headers (Some stored_abc)) ''Authorization'' = Some ''Bearer abc''"
    by (simp_all add: mount_def h Let_def syncEffect_def truthy_def)
  have t: "toasts (app_dashboard (reload no_headers (Some stored_abc) guarded_server))
      = [(Failure, ''Unable to load campaigns.'')]"
    "replaced (app_dashboard (reload no_headers (Some stored_abc) guarded_server)) = [''/login'']"
    unfolding reload_dashboard [OF h]
    by (simp_all add: initial_dashboard_def fetchCampaigns_def guarded_server_def
        sample_server_def api_request_def no_headers_def map_add_def syncEffect_def Let_def
        toast_def send_def)
  have s1: "sent (app_dashboard (reload no_headers (Some stored_abc) guarded_server)) =
      [api_request
         ((syncEffect \<lparr>authToken = None, common = no_headers, localStorage = Some stored_abc\<rparr>)
            \<lparr>authToken := Some ''abc''\<rparr>)
         GET ''/api/v1/campaigns/'' no_headers NoBody]"
    unfolding reload_sent h by simp
  have s0: "sent (app_dashboard (reload no_headers (Some empty_storage) guarded_server)) = []"
    unfolding reload_sent e by simp
  have r: "length (sent (app_dashboard (reload no_headers (Some stored_abc) guarded_server))) = 1"
    "req_method (hd (sent (app_dashboard (reload no_headers (Some stored_abc) guarded_server))))
        = GET"
    "req_url (hd (sent (app_dashboard (reload no_headers (Some stored_abc) guarded_server))))
        = ''/api/v1/campaigns/''"
    "req_headers (hd (sent (app_dashboard (reload no_headers (Some stored_abc) guarded_server))))
        ''Authorization'' = None"
    unfolding s1
    by (simp_all add: api_request_def no_headers_def map_add_def syncEffect_def Let_def)
  from p m t s0 r show ?thesis by simp
qed


section \<open>Token persistence\<close>

text \<open>
  Neither the login page nor a mount ever sets the empty string as the token: the
  two places that call \<open>setAuthToken\<close> with a string test it for truthiness first.
\<close>

lemma LoginPage_token_truthy:
  "authToken p \<noteq> Some [] \<Longrightarrow>
   authToken (LoginPage_handleSubmit token_endpoint email password p) \<noteq> Some []"
  by (simp add: LoginPage_handleSubmit_def login_def truthy_def
      split: response.split option.split)

lemma mount_authToken:
  "authToken (mount d st) =
    (case st of None \<Rightarrow> None
     | Some ls \<Rightarrow> (case ls TOKEN_STORAGE_KEY of None \<Rightarrow> None
          | Some t \<Rightarrow> if t = [] then None else Some t))"
  by (simp add: mount_def hydrate_def syncEffect_def truthy_def Let_def split: option.split)

lemma mount_token_truthy: "authToken (mount d st) \<noteq> Some []"
  by (simp add: mount_authToken split: option.split)

lemma mount_stored_token:
  "stored_token (mount d (Some ls)) =
     (case ls TOKEN_STORAGE_KEY of None \<Rightarrow> None | Some t \<Rightarrow> if t = [] then None else Some t)"
  by (simp add: mount_def hydrate_def syncEffect_def truthy_def Let_def stored_token_def split: option.split)

lemma login_synced_storage:
  "localStorage p = Some ls \<Longrightarrow> t \<noteq> [] \<Longrightarrow>
   localStorage (login_synced t p) = Some (ls(TOKEN_STORAGE_KEY \<mapsto> t))"
  by (simp add: login_synced_def login_def syncEffect_def truthy_def)

lemma logout_synced_storage:
  "localStorage p = Some ls \<Longrightarrow>
   localStorage (logout_synced p) = Some (ls(TOKEN_STORAGE_KEY := None))"
  by (simp add: logout_synced_def logout_def syncEffect_def)

text \<open>
  Claim C10, as amended. In a browser, after \<open>login(t)\<close> with a non-empty \<open>t\<close> and the
  sync effect, the storage holds \<open>t\<close> under the key \<open>ai-campaign-token\<close>, and a fresh
  mount of the provider on that storage ends with \<open>authToken = t\<close> and leaves \<open>t\<close> in
  the storage. After \<open>logout()\<close> and the sync effect the key is removed, and a fresh
  mount ends with \<open>authToken = null\<close>.
\<close>

theorem token_roundtrip:
  "TOKEN_STORAGE_KEY = ''ai-campaign-token''
   \<and> (localStorage p \<noteq> None \<and> t \<noteq> [] \<longrightarrow>
        stored_token (login_synced t p) = Some t
        \<and> authToken (mount d (localStorage (login_synced t p))) = Some t
        \<and> stored_token (mount d (localStorage (login_synced t p))) = Some t)
   \<and> (localStorage p \<noteq> None \<longrightarrow>
        stored_token (logout_synced p) = None
        \<and> localStorage (logout_synced p) \<noteq> None
        \<and> authToken (mount d (localStorage (logout_synced p))) = None)"
proof (intro conjI impI)
  show "TOKEN_STORAGE_KEY = ''ai-campaign-token''"
    by (simp add: TOKEN_STORAGE_KEY_def)
next
  assume a: "localStorage p \<noteq> None \<and> t \<noteq> []"
  then obtain ls where ls: "localStorage p = Some ls" by auto
  from a have st: "localStorage (login_synced t p) = Some (ls(TOKEN_STORAGE_KEY \<mapsto> t))"
    using login_synced_storage [OF ls] by simp
  show "stored_token (login_synced t p) = Some t"
    by (simp add: stored_token_def st)
  show "authToken (mount d (localStorage (login_synced t p))) = Some t"
    using a by (simp add: st mount_authToken)
  show "stored_token (mount d (localStorage (login_synced t p))) = Some t"
    using a by (simp add: st mount_stored_token)
next
  assume "localStorage p \<noteq> None"
  then obtain ls where ls: "localStorage p = Some ls" by auto
  have st: "localStorage (logout_synced p) = Some (ls(TOKEN_STORAGE_KEY := None))"
    by (rule logout_synced_storage [OF ls])
  show "stored_token (logout_synced p) = None"
    by (simp add: stored_token_def st)
  show "localStorage (logout_synced p) \<noteq> None"
    by (simp add: st)
  show "authToken (mount d (localStorage (logout_synced p))) = None"
    by (simp add: st mount_authToken)
qed

text \<open>
  For the empty token the round trip fails: the sync effect after \<open>login("")\<close> removes
  the key, and a fresh mount ends with a null token, not with the empty string.
\<close>

theorem token_roundtrip_counterexample:
  "localStorage signed_out \<noteq> None
   \<and> stored_token (login_synced [] signed_out) = None
   \<and> authToken (mount no_headers (localStorage (login_synced [] signed_out))) = None"
  by (simp add: login_synced_def login_def stored_token_def signed_out_simps mount_authToken
    syncEffect_def truthy_def)

theorem token_roundtrip_witness:
  "localStorage signed_out \<noteq> None \<and> ''abc'' \<noteq> []
   \<and> stored_token (login_synced ''abc'' signed_out) = Some ''abc''
   \<and> authToken (mount no_headers (localStorage (login_synced ''abc'' signed_out))) = Some ''abc''
   \<and> stored_token (logout_synced (login_synced ''abc'' signed_out)) = None
   \<and> authToken (mount no_headers (localStorage (logout_synced (login_synced ''abc'' signed_out)))) = None"
  using token_roundtrip [of signed_out "''abc''" no_headers]
    token_roundtrip [of "login_synced ''abc'' signed_out" "''abc''" no_headers]
  by (simp add: signed_out_simps login_synced_def login_def syncEffect_def truthy_def)


section \<open>The form that creates a campaign\<close>

text \<open>
  The first request that \<open>handleSubmit\<close> sends is \<open>create_campaign_request\<close> of the
  state it starts from (\<open>handleSubmit_sent\<close>); the statements below are about the form
  of that request.
\<close>

lemma request_form_create [simp]:
  "request_form (create_campaign_request p s) = create_campaign_form s"
  by (simp add: request_form_def create_campaign_request_def api_request_def)

lemma form_get_product_image:
  "form_get (create_campaign_form s) ''product_image'' = map_option Blob (productImage s)"
  by (simp add: form_get_def create_campaign_form_def split: option.split)

lemma form_get_product_name:
  "form_get (create_campaign_form s) ''product_name'' =
    (if trim (productName s) = [] then None else Some (Text (trim (productName s))))"
  by (simp add: form_get_def create_campaign_form_def truthy_def split: option.split)


lemma form_keys:
  "fst ` set (create_campaign_form s) =
     {''product_url'', ''enable_ab_testing'', ''num_variations''}
     \<union> (if trim (productName s) = [] then {} else {''product_name''})
     \<union> (case productImage s of None \<Rightarrow> {} | Some f \<Rightarrow> {''product_image''})"
  by (auto simp: create_campaign_form_def truthy_def split: option.split)

text \<open>
  Claim C3. When a file is chosen in the product-image input and its size exceeds
  10 MiB, the handler clears the \<open>productImage\<close> state and resets the input, and the
  create-campaign request built from the resulting state has no \<open>product_image\<close>
  part; a chosen file of at most 10 MiB becomes the \<open>productImage\<close> state and is the
  \<open>product_image\<close> part of that request.
\<close>

theorem productImage_size_limit:
  "el_files el = f # rest \<longrightarrow>
     (file_size f > 10 * 1024 * 1024 \<longrightarrow>
        productImage (fst (productImage_onChange el s)) = None
        \<and> snd (productImage_onChange el s) = \<lparr>el_value = [], el_files = []\<rparr>
        \<and> ''product_image'' \<notin> fst ` set (request_form
              (create_campaign_request p (fst (productImage_onChange el s)))))
     \<and> (file_size f \<le> 10 * 1024 * 1024 \<longrightarrow>
        productImage (fst (productImage_onChange el s)) = Some f
        \<and> snd (productImage_onChange el s) = el
        \<and> form_get (request_form (create_campaign_request p (fst (productImage_onChange el s))))
              ''product_image'' = Some (Blob f))"
  by (auto simp: productImage_onChange_def form_get_product_image form_keys toast_def)

theorem productImage_size_limit_witness:
  "el_files \<lparr>el_value = ''C:/fakepath/poster.png'', el_files = [large_file]\<rparr> = large_file # []
   \<and> file_size large_file > 10 * 1024 * 1024
   \<and> productImage (fst (productImage_onChange
        \<lparr>el_value = ''C:/fakepath/poster.png'', el_files = [large_file]\<rparr>
        (initial_dashboard\<lparr>productImage := Some exact_file\<rparr>))) = None
   \<and> file_size exact_file \<le> 10 * 1024 * 1024
   \<and> form_get (request_form (create_campaign_request signed_out (fst (productImage_onChange
        \<lparr>el_value = ''C:/fakepath/shoe.png'', el_files = [exact_file]\<rparr> initial_dashboard))))
        ''product_image'' = Some (Blob exact_file)"
  using productImage_size_limit [of "\<lparr>el_value = ''C:/fakepath/poster.png'', el_files = [large_file]\<rparr>"
      large_file "[]" "initial_dashboard\<lparr>productImage := Some exact_file\<rparr>" signed_out]
    productImage_size_limit [of "\<lparr>el_value = ''C:/fakepath/shoe.png'', el_files = [exact_file]\<rparr>"
      exact_file "[]" initial_dashboard signed_out]
  by (simp add: large_file_def exact_file_def)


subsection \<open>The variation count\<close>






text \<open>
  With A/B testing on and 3 entered the form is submitted with \<open>num_variations = 3\<close>;
  with 5 entered the browser does not submit it.
\<close>

lemma out_of_range_not_submitted:
  "sent (form_onSubmit sample_valid_url sample_server signed_out
      (numVariations_onChange ''5'' (enableABTesting_onChange True initial_dashboard))) = []"
  by (simp add: form_onSubmit_def form_valid_def numVariations_field_def field_valid_def
      numVariations_onChange_def enableABTesting_onChange_def initial_dashboard_def
      parseInt_digit)



subsection \<open>The product name\<close>

lemma dropWhile_hd_not: "dropWhile P xs \<noteq> [] \<Longrightarrow> \<not> P (hd (dropWhile P xs))"
  by (simp add: hd_dropWhile)

lemma trim_eq_Nil_iff: "trim s = [] \<longleftrightarrow> (\<forall>c \<in> set s. is_ws c)"
proof
  assume "trim s = []"
  then have a: "\<forall>c \<in> set (dropWhile is_ws s). is_ws c"
    by (simp add: trim_def dropWhile_eq_Nil_conv)
  have "dropWhile is_ws s = []"
  proof (rule ccontr)
    assume n: "dropWhile is_ws s \<noteq> []"
    then have "hd (dropWhile is_ws s) \<in> set (dropWhile is_ws s)" by simp
    with a have "is_ws (hd (dropWhile is_ws s))" by blast
    with dropWhile_hd_not [OF n] show False by simp
  qed
  then show "\<forall>c \<in> set s. is_ws c" by (simp add: dropWhile_eq_Nil_conv)
next
  assume "\<forall>c \<in> set s. is_ws c"
  then have "dropWhile is_ws s = []" by (simp add: dropWhile_eq_Nil_conv)
  then show "trim s = []" by (simp add: trim_def del: dropWhile_eq_Nil_conv)
qed

lemma trim_ends:
  assumes "trim s \<noteq> []"
  shows "\<not> is_ws (hd (trim s))" and "\<not> is_ws (last (trim s))"
proof -
  let ?xs = "dropWhile is_ws s"
  let ?ys = "dropWhile is_ws (rev ?xs)"
  from assms have ys: "?ys \<noteq> []" by (simp add: trim_def)
  then have xs: "?xs \<noteq> []" by (cases "?xs = []") simp_all
  have "last (trim s) = hd ?ys" using ys by (simp add: trim_def last_rev)
  with dropWhile_hd_not [OF ys] show "\<not> is_ws (last (trim s))" by simp
  have "hd (trim s) = last ?ys" using ys by (simp add: trim_def hd_rev)
  also have "\<dots> = last (rev ?xs)"
    using ys by (metis append_Nil2 last_appendR takeWhile_dropWhile_id)
  also have "\<dots> = hd ?xs" using xs by (simp add: last_rev)
  finally show "\<not> is_ws (hd (trim s))" using dropWhile_hd_not [OF xs] by simp
qed

text \<open>
  Claim C5. The create-campaign request has a \<open>product_name\<close> field if and only if
  the product name is non-empty after trimming, that is, holds a character that is
  not white space; the value sent is then the trimmed name, which neither starts
  nor ends with white space. When the trimmed name is empty the field is absent.
\<close>

theorem product_name_field:
  "(''product_name'' \<in> fst ` set (request_form (create_campaign_request p s))
      \<longleftrightarrow> trim (productName s) \<noteq> [])
   \<and> (trim (productName s) \<noteq> [] \<longrightarrow>
        form_get (request_form (create_campaign_request p s)) ''product_name''
          = Some (Text (trim (productName s))))
   \<and> (trim (productName s) = [] \<longrightarrow>
        form_get (request_form (create_campaign_request p s)) ''product_name'' = None)
   \<and> (trim (productName s) \<noteq> [] \<longleftrightarrow> (\<exists>c \<in> set (productName s). \<not> is_ws c))
   \<and> (trim (productName s) \<noteq> [] \<longrightarrow>
        \<not> is_ws (hd (trim (productName s))) \<and> \<not> is_ws (last (trim (productName s))))"
  using trim_eq_Nil_iff [of "productName s"] trim_ends [of "productName s"]
  by (auto simp: form_keys form_get_product_name split: option.splits)

lemma trim_example: "trim ''  Trail Shoe  '' = ''Trail Shoe''"
  by (simp add: trim_def is_ws_def)

theorem product_name_field_witness:
  "trim (productName (productName_onChange ''  Trail Shoe  '' initial_dashboard)) \<noteq> []
   \<and> form_get (request_form (create_campaign_request signed_out
         (productName_onChange ''  Trail Shoe  '' initial_dashboard))) ''product_name''
       = Some (Text ''Trail Shoe'')
   \<and> trim (productName (productName_onChange ''   '' initial_dashboard)) = []
   \<and> form_get (request_form (create_campaign_request signed_out
         (productName_onChange ''   '' initial_dashboard))) ''product_name'' = None"
  using product_name_field [of signed_out "productName_onChange ''  Trail Shoe  '' initial_dashboard"]
    product_name_field [of signed_out "productName_onChange ''   '' initial_dashboard"]
  by (simp add: productName_onChange_def trim_def is_ws_def)


section \<open>Regenerating an image\<close>

text \<open>
  Claim C6. \<open>handleRegenerateImage\<close> sends a POST request to
  \<open>/api/v1/assets/regenerate\<close> whose body holds exactly the fields \<open>campaign_id\<close>,
  \<open>platform\<close> and \<open>variation_number\<close>, the last being 0 when no variation is given;
  the Regenerate button of the main image sends the request with variation 0.
\<close>

theorem regenerate_request_shape:
  "(\<exists>rest. sent (handleRegenerateImage srv p c pl v s)
        = sent s @ regenerate_request p c pl (case v of None \<Rightarrow> 0 | Some n \<Rightarrow> n) # rest)
   \<and> req_method (regenerate_request p c pl n) = POST
   \<and> req_url (regenerate_request p c pl n) = ''/api/v1/assets/regenerate''
   \<and> req_body (regenerate_request p c pl n) =
        JsonBody [(''campaign_id'', JNum c), (''platform'', JStr pl), (''variation_number'', JNum n)]
   \<and> (activeCampaign s = Some a \<longrightarrow>
        (\<exists>rest. sent (main_Regenerate_onClick srv p t s)
           = sent s @ regenerate_request p (cd_id a) (gt_platform t) 0 # rest))"
  by (simp add: handleRegenerateImage_sent main_Regenerate_onClick_def regenerate_request_def
      api_request_def)

theorem regenerate_request_shape_witness:
  "activeCampaign sample_dashboard = Some sample_details
   \<and> sent (main_Regenerate_onClick sample_server signed_out sample_text sample_dashboard)
       = [regenerate_request signed_out 7 ''Instagram'' 0,
          api_request signed_out GET ''/api/v1/campaigns/7'' no_headers NoBody]
   \<and> req_body (regenerate_request signed_out 7 ''Instagram'' 0) =
        JsonBody [(''campaign_id'', JNum 7), (''platform'', JStr ''Instagram''),
                  (''variation_number'', JNum 0)]"
  using regenerate_request_shape [of sample_server signed_out 7 "''Instagram''" "Some 0"
      sample_dashboard 0 sample_details sample_text]
  by (simp add: sample_dashboard_def main_Regenerate_onClick_def handleRegenerateImage_sent
      sample_details_def sample_text_def sample_server_def initial_dashboard_def
      toString_digit)

section \<open>Deleting a campaign\<close>

lemma handleDeleteCampaign_ok:
  "confirmed \<Longrightarrow> delete_campaign srv (delete_request p c) = Resolved u \<Longrightarrow>
   handleDeleteCampaign confirmed srv p c s =
     (toast Success ''Campaign deleted''
        ((send (delete_request p c) s)
           \<lparr>campaigns := filter (\<lambda>x. cs_id x \<noteq> c) (campaigns s),
            activeCampaign := (if map_option cd_id (activeCampaign s) = Some c then None
                               else activeCampaign s)\<rparr>), True)"
  by (cases "activeCampaign s")
     (simp_all add: handleDeleteCampaign_def delete_request_def Let_def send_def)

lemma handleDeleteCampaign_rejected:
  "confirmed \<Longrightarrow> delete_campaign srv (delete_request p c) = Rejected d \<Longrightarrow>
   handleDeleteCampaign confirmed srv p c s =
     (toast Failure (detail_or d ''Unable to delete campaign.'') (send (delete_request p c) s), False)"
  by (simp add: handleDeleteCampaign_def delete_request_def Let_def)

lemma handleDeleteCampaign_declined:
  "handleDeleteCampaign False srv p c s = (s, False)"
  by (simp add: handleDeleteCampaign_def)

text \<open>
  Claim C7. After a confirmed delete of campaign \<open>c\<close> that the server accepts, the
  handler returns true, \<open>c\<close> is absent from the campaigns list, the list is the old
  one without the summaries of id \<open>c\<close>, and the active campaign is null if it had id
  \<open>c\<close> and unchanged otherwise. When the user declines or the call is rejected, the
  handler returns false and leaves the list and the active campaign as they were.
  Deleting the active campaign clears it and pushes the route \<open>/\<close>.
\<close>

theorem handleDeleteCampaign_frame:
  "(confirmed \<and> delete_campaign srv (delete_request p c) = Resolved () \<longrightarrow>
      snd (handleDeleteCampaign confirmed srv p c s)
      \<and> c \<notin> cs_id ` set (campaigns (fst (handleDeleteCampaign confirmed srv p c s)))
      \<and> campaigns (fst (handleDeleteCampaign confirmed srv p c s))
          = filter (\<lambda>x. cs_id x \<noteq> c) (campaigns s)
      \<and> activeCampaign (fst (handleDeleteCampaign confirmed srv p c s))
          = (if map_option cd_id (activeCampaign s) = Some c then None else activeCampaign s))
   \<and> (\<not> confirmed \<or> (\<exists>d. delete_campaign srv (delete_request p c) = Rejected d) \<longrightarrow>
      \<not> snd (handleDeleteCampaign confirmed srv p c s)
      \<and> campaigns (fst (handleDeleteCampaign confirmed srv p c s)) = campaigns s
      \<and> activeCampaign (fst (handleDeleteCampaign confirmed srv p c s)) = activeCampaign s)
   \<and> (confirmed \<and> activeCampaign s = Some a
        \<and> delete_campaign srv (delete_request p (cd_id a)) = Resolved () \<longrightarrow>
      activeCampaign (handleDeleteActiveCampaign confirmed srv p s) = None
      \<and> campaigns (handleDeleteActiveCampaign confirmed srv p s)
          = filter (\<lambda>x. cs_id x \<noteq> cd_id a) (campaigns s)
      \<and> pushed (handleDeleteActiveCampaign confirmed srv p s) = pushed s @ [''/''])"
proof (intro conjI impI)
  assume a: "confirmed \<and> delete_campaign srv (delete_request p c) = Resolved ()"
  then have eq: "handleDeleteCampaign confirmed srv p c s =
     (toast Success ''Campaign deleted''
        ((send (delete_request p c) s)
           \<lparr>campaigns := filter (\<lambda>x. cs_id x \<noteq> c) (campaigns s),
            activeCampaign := (if map_option cd_id (activeCampaign s) = Some c then None
                               else activeCampaign s)\<rparr>), True)"
    using handleDeleteCampaign_ok [of confirmed srv p c "()" s] by simp
  show "snd (handleDeleteCampaign confirmed srv p c s)"
    by (simp add: eq)
  show "campaigns (fst (handleDeleteCampaign confirmed srv p c s))
          = filter (\<lambda>x. cs_id x \<noteq> c) (campaigns s)"
    by (simp add: eq toast_def)
  then show "c \<notin> cs_id ` set (campaigns (fst (handleDeleteCampaign confirmed srv p c s)))"
    by auto
  show "activeCampaign (fst (handleDeleteCampaign confirmed srv p c s))
          = (if map_option cd_id (activeCampaign s) = Some c then None else activeCampaign s)"
    by (simp add: eq toast_def)
next
  assume a: "\<not> confirmed \<or> (\<exists>d. delete_campaign srv (delete_request p c) = Rejected d)"
  then have "\<not> snd (handleDeleteCampaign confirmed srv p c s)
      \<and> campaigns (fst (handleDeleteCampaign confirmed srv p c s)) = campaigns s
      \<and> activeCampaign (fst (handleDeleteCampaign confirmed srv p c s)) = activeCampaign s"
  proof (cases confirmed)
    case False
    then show ?thesis by (simp add: handleDeleteCampaign_declined)
  next
    case True
    with a obtain d where "delete_campaign srv (delete_request p c) = Rejected d" by auto
    from handleDeleteCampaign_rejected [OF True this]
    show ?thesis by (simp add: toast_def send_def)
  qed
  then show "\<not> snd (handleDeleteCampaign confirmed srv p c s)"
    and "campaigns (fst (handleDeleteCampaign confirmed srv p c s)) = campaigns s"
    and "activeCampaign (fst (handleDeleteCampaign confirmed srv p c s)) = activeCampaign s"
    by simp_all
next
  assume a: "confirmed \<and> activeCampaign s = Some a
        \<and> delete_campaign srv (delete_request p (cd_id a)) = Resolved ()"
  then have eq: "handleDeleteActiveCampaign confirmed srv p s =
      (toast Success ''Campaign deleted''
        ((send (delete_request p (cd_id a)) s)
           \<lparr>campaigns := filter (\<lambda>x. cs_id x \<noteq> cd_id a) (campaigns s),
            activeCampaign := None\<rparr>))\<lparr>pushed := pushed s @ [''/'']\<rparr>"
    using handleDeleteCampaign_ok [of confirmed srv p "cd_id a" "()" s]
    by (simp add: handleDeleteActiveCampaign_def toast_def send_def)
  show "activeCampaign (handleDeleteActiveCampaign confirmed srv p s) = None"
    by (simp add: eq toast_def)
  show "campaigns (handleDeleteActiveCampaign confirmed srv p s)
          = filter (\<lambda>x. cs_id x \<noteq> cd_id a) (campaigns s)"
    by (simp add: eq toast_def)
  show "pushed (handleDeleteActiveCampaign confirmed srv p s) = pushed s @ [''/'']"
    by (simp add: eq)
qed

lemma sample_delete_ok: "delete_campaign sample_server r = Resolved ()"
  by (simp add: sample_server_def)

theorem handleDeleteCampaign_frame_witness:
  "delete_campaign sample_server (delete_request signed_out 7) = Resolved ()
   \<and> snd (handleDeleteCampaign True sample_server signed_out 7 sample_dashboard)
   \<and> map cs_id (campaigns (fst (handleDeleteCampaign True sample_server signed_out 7 sample_dashboard)))
        = [3]
   \<and> activeCampaign (fst (handleDeleteCampaign True sample_server signed_out 7 sample_dashboard))
        = None
   \<and> \<not> snd (handleDeleteCampaign False sample_server signed_out 7 sample_dashboard)
   \<and> campaigns (fst (handleDeleteCampaign False sample_server signed_out 7 sample_dashboard))
        = sample_summaries
   \<and> activeCampaign (fst (handleDeleteCampaign False sample_server signed_out 7 sample_dashboard))
        = Some sample_details
   \<and> activeCampaign (handleDeleteActiveCampaign True sample_server signed_out sample_dashboard) = None"
  using handleDeleteCampaign_frame [of True sample_server signed_out 7 sample_dashboard sample_details]
    handleDeleteCampaign_frame [of False sample_server signed_out 7 sample_dashboard sample_details]
  by (simp add: sample_delete_ok sample_dashboard_def sample_summaries_def sample_details_def)


section \<open>The statistics of the dashboard\<close>

lemma sorted_head_latest:
  fixes ts :: "string \<Rightarrow> 'a::linorder"
  assumes "sorted_wrt (\<lambda>a b. ts (cs_created_at b) \<le> ts (cs_created_at a)) (c # cs)"
    and "x \<in> set (c # cs)"
  shows "ts (cs_created_at x) \<le> ts (cs_created_at c)"
  using assms by auto

text \<open>
  Claim C8. The dashboard statistics depend on the campaigns list and the active
  campaign only: \<open>totalCampaigns\<close> is the length of the list, \<open>lastRun\<close> is the
  \<open>created_at\<close> of its first summary, or null for the empty list, which \<open>formatTime\<close>
  renders as \<open>No campaigns yet\<close>, and \<open>totalImages\<close> is the number of images of the
  active campaign, or 0 without one. For a list ordered most recent first (under
  any reading \<open>ts\<close> of the time stamps), \<open>lastRun\<close> is the latest creation time.
\<close>

theorem dashboard_stats_spec:
  fixes ts :: "string \<Rightarrow> 'a::linorder"
  shows
  "totalCampaigns (dashboard_stats s) = length (campaigns s)
   \<and> (campaigns s = [] \<longrightarrow> lastRun (dashboard_stats s) = None
         \<and> formatTime localeTime (lastRun (dashboard_stats s)) = ''No campaigns yet'')
   \<and> (campaigns s \<noteq> [] \<longrightarrow> lastRun (dashboard_stats s) = Some (cs_created_at (hd (campaigns s))))
   \<and> (activeCampaign s = None \<longrightarrow> totalImages (dashboard_stats s) = 0)
   \<and> (activeCampaign s = Some a \<longrightarrow> totalImages (dashboard_stats s) = length (cd_images a))
   \<and> (campaigns s = campaigns s' \<and> activeCampaign s = activeCampaign s' \<longrightarrow>
        dashboard_stats s = dashboard_stats s')
   \<and> (sorted_wrt (\<lambda>a b. ts (cs_created_at b) \<le> ts (cs_created_at a)) (campaigns s) \<longrightarrow>
        (\<forall>x \<in> set (campaigns s). \<exists>l. lastRun (dashboard_stats s) = Some l
            \<and> ts (cs_created_at x) \<le> ts l))"
proof (intro conjI impI)
  show "totalCampaigns (dashboard_stats s) = length (campaigns s)"
    by (simp add: dashboard_stats_def)
next
  assume "campaigns s = []"
  then show "lastRun (dashboard_stats s) = None"
    by (simp add: dashboard_stats_def)
  then show "formatTime localeTime (lastRun (dashboard_stats s)) = ''No campaigns yet''"
    by (simp add: formatTime_def)
next
  assume "campaigns s \<noteq> []"
  then show "lastRun (dashboard_stats s) = Some (cs_created_at (hd (campaigns s)))"
    by (cases "campaigns s") (simp_all add: dashboard_stats_def)
next
  assume "activeCampaign s = None"
  then show "totalImages (dashboard_stats s) = 0"
    by (simp add: dashboard_stats_def)
next
  assume "activeCampaign s = Some a"
  then show "totalImages (dashboard_stats s) = length (cd_images a)"
    by (simp add: dashboard_stats_def)
next
  assume "campaigns s = campaigns s' \<and> activeCampaign s = activeCampaign s'"
  then show "dashboard_stats s = dashboard_stats s'"
    by (simp add: dashboard_stats_def)
next
  assume sorted: "sorted_wrt (\<lambda>a b. ts (cs_created_at b) \<le> ts (cs_created_at a)) (campaigns s)"
  show "\<forall>x \<in> set (campaigns s). \<exists>l. lastRun (dashboard_stats s) = Some l
            \<and> ts (cs_created_at x) \<le> ts l"
  proof
    fix x assume x: "x \<in> set (campaigns s)"
    then obtain c cs where cs: "campaigns s = c # cs" by (cases "campaigns s") auto
    with sorted x have "ts (cs_created_at x) \<le> ts (cs_created_at c)"
      using sorted_head_latest [of ts c cs x] by simp
    moreover have "lastRun (dashboard_stats s) = Some (cs_created_at c)"
      by (simp add: dashboard_stats_def cs)
    ultimately show "\<exists>l. lastRun (dashboard_stats s) = Some l \<and> ts (cs_created_at x) \<le> ts l"
      by simp
  qed
qed

theorem dashboard_stats_spec_witness:
  "campaigns initial_dashboard = []
   \<and> formatTime Some (lastRun (dashboard_stats initial_dashboard)) = ''No campaigns yet''
   \<and> totalImages (dashboard_stats initial_dashboard) = 0
   \<and> campaigns sample_dashboard \<noteq> []
   \<and> activeCampaign sample_dashboard = Some sample_details
   \<and> totalCampaigns (dashboard_stats sample_dashboard) = 2
   \<and> lastRun (dashboard_stats sample_dashboard) = Some ''2025-03-02T10:15:00''
   \<and> totalImages (dashboard_stats sample_dashboard) = 3
   \<and> sorted_wrt (\<lambda>a b. sample_clock (cs_created_at b) \<le> sample_clock (cs_created_at a))
        (campaigns sample_dashboard)
   \<and> list_all (\<lambda>x. sample_clock (cs_created_at x) \<le> sample_clock ''2025-03-02T10:15:00'')
        (campaigns sample_dashboard)"
  using dashboard_stats_spec [of initial_dashboard Some sample_details initial_dashboard sample_clock]
    dashboard_stats_spec [of sample_dashboard Some sample_details sample_dashboard sample_clock]
  by (simp add: initial_dashboard_def sample_dashboard_def sample_summaries_def sample_details_def
      sample_clock_def digits_value_def digit_val_def digit_table_def dashboard_stats_def
      formatTime_def)


section \<open>Images and variations\<close>

lemma find_Some_D:
  "find P xs = Some x \<Longrightarrow> P x \<and> x \<in> set xs"
  by (auto simp: find_Some_iff)

text \<open>
  Claim C9. \<open>findImage(p, v)\<close> returns an image of the active campaign with platform
  \<open>p\<close> and \<open>variation_number ?? 0\<close> equal to \<open>v\<close>, and none exactly when there is no
  such image; \<open>v\<close> defaults to 0. An image whose variation number is null or
  undefined counts as variation 0: it is found by \<open>findImage\<close> at 0 and labelled
  \<open>Main\<close>. The label is \<open>Main\<close> exactly when \<open>variation_number ?? 0\<close> is 0.
\<close>

theorem findImage_spec:
  "(findImage s p (Some v) = Some img \<longrightarrow>
      gi_platform img = p \<and> nullish (gi_variation_number img) 0 = v
      \<and> (\<exists>a. activeCampaign s = Some a \<and> img \<in> set (cd_images a)))
   \<and> (activeCampaign s = Some a \<longrightarrow>
        (findImage s p (Some v) = None \<longleftrightarrow>
           \<not> (\<exists>img \<in> set (cd_images a).
                gi_platform img = p \<and> nullish (gi_variation_number img) 0 = v)))
   \<and> (activeCampaign s = None \<longrightarrow> findImage s p (Some v) = None)
   \<and> findImage s p None = findImage s p (Some 0)
   \<and> (gi_variation_number img' = Null \<or> gi_variation_number img' = Undefined \<longrightarrow>
        isMain img' \<and> variation_label img' = ''Main''
        \<and> (activeCampaign s = Some a \<and> img' \<in> set (cd_images a) \<longrightarrow>
             findImage s (gi_platform img') (Some 0) \<noteq> None))
   \<and> (isMain img' \<longleftrightarrow> nullish (gi_variation_number img') 0 = 0)
   \<and> (variation_label img' = ''Main'' \<longleftrightarrow> nullish (gi_variation_number img') 0 = 0)"
proof (intro conjI impI)
  assume f: "findImage s p (Some v) = Some img"
  then obtain a where a: "activeCampaign s = Some a"
    by (cases "activeCampaign s") (simp_all add: findImage_def)
  with f have "find (\<lambda>i. gi_platform i = p \<and> nullish (gi_variation_number i) 0 = v) (cd_images a)
      = Some img"
    by (simp add: findImage_def)
  from find_Some_D [OF this] a
  show "gi_platform img = p" and "nullish (gi_variation_number img) 0 = v"
    and "\<exists>a. activeCampaign s = Some a \<and> img \<in> set (cd_images a)"
    by simp_all
next
  assume a: "activeCampaign s = Some a"
  show "findImage s p (Some v) = None \<longleftrightarrow>
           \<not> (\<exists>img \<in> set (cd_images a).
                gi_platform img = p \<and> nullish (gi_variation_number img) 0 = v)"
    by (auto simp: findImage_def a find_None_iff)
next
  assume "activeCampaign s = None"
  then show "findImage s p (Some v) = None" by (simp add: findImage_def)
next
  show "findImage s p None = findImage s p (Some 0)" by (simp add: findImage_def)
next
  assume n: "gi_variation_number img' = Null \<or> gi_variation_number img' = Undefined"
  then show m: "isMain img'" by (auto simp: isMain_def)
  then show "variation_label img' = ''Main''" by (simp add: variation_label_def)
  assume "activeCampaign s = Some a \<and> img' \<in> set (cd_images a)"
  with n show "findImage s (gi_platform img') (Some 0) \<noteq> None"
    by (auto simp: findImage_def find_None_iff)
next
  show "isMain img' \<longleftrightarrow> nullish (gi_variation_number img') 0 = 0" by (simp add: isMain_def)
  show "variation_label img' = ''Main'' \<longleftrightarrow> nullish (gi_variation_number img') 0 = 0"
    by (simp add: variation_label_def isMain_def)
qed

theorem findImage_spec_witness:
  "findImage sample_dashboard ''Instagram'' (Some 0) = Some (sample_image 11 ''Instagram'' Null)
   \<and> gi_variation_number (sample_image 11 ''Instagram'' Null) = Null
   \<and> findImage sample_dashboard ''Instagram'' (Some 1) = Some (sample_image 12 ''Instagram'' (Val 1))
   \<and> findImage sample_dashboard ''Facebook'' None = Some (sample_image 13 ''Facebook'' Undefined)
   \<and> activeCampaign sample_dashboard = Some sample_details
   \<and> findImage sample_dashboard ''Facebook'' (Some 1) = None
   \<and> variation_label (sample_image 11 ''Instagram'' Null) = ''Main''
   \<and> variation_label (sample_image 12 ''Instagram'' (Val 1)) = ''Variation 1''"
  using findImage_spec [of sample_dashboard "''Instagram''" 0 "sample_image 11 ''Instagram'' Null"
      sample_details "sample_image 11 ''Instagram'' Null"]
    findImage_spec [of sample_dashboard "''Facebook''" 1 "sample_image 13 ''Facebook'' Undefined"
      sample_details "sample_image 12 ''Instagram'' (Val 1)"]
  by (simp add: findImage_def sample_dashboard_def sample_details_def sample_image_def
      variation_label_def isMain_def toString_digit)

end
